theory Spec2Isabelle
  imports Complex_Main "HOL-Library.Sublist"
begin

section \<open>The store\<close>

text \<open>
  The two tables of \<^verbatim>\<open>createTablesQuery\<close>. A \<^verbatim>\<open>DECIMAL(p, 2)\<close> column holds a number
  with two fractional digits; the model keeps it as the integer number of hundredths
  (\<open>1500000\<close> stands for \<^verbatim>\<open>15000.00\<close>). An \<^verbatim>\<open>INTEGER\<close> column is an \<open>int\<close>. A
  \<^verbatim>\<open>SERIAL\<close> column draws its value from the sequence of its table, kept as the last
  value drawn.
\<close>

record dashboard_row =
  dashboard_id :: int
  wallet_balance :: int
  total_investment :: int
  monthly_yield :: int

record asset_row =
  asset_id :: int
  name :: string
  location :: string
  apy :: int
  price_per_token :: int
  tokens_available :: int

record 'r table =
  rows :: "'r list"
  serial :: int

text \<open>
  The database \<^verbatim>\<open>onblock\<close>. A table is \<open>None\<close> until \<^verbatim>\<open>CREATE TABLE IF NOT EXISTS\<close>
  has made it. The rows of a table are listed in the order of a sequential scan, which
  is the order \<^verbatim>\<open>SELECT * FROM dashboard LIMIT 1\<close> (no \<^verbatim>\<open>ORDER BY\<close>) is taken to follow.
\<close>

record db =
  dashboard :: "dashboard_row table option"
  assets :: "asset_row table option"

text \<open>
  A store call can fail. \<open>ConnectionFailure\<close> is the failure the environment decides
  (the server is unreachable); the others are the store's own rejections of a statement.
\<close>

datatype store_fault =
  ConnectionFailure | UndefinedTable | InvalidInteger | IntegerOutOfRange | NumericOverflow

text \<open>The store calls of the program, in the order of the source.\<close>

datatype call =
    AdminConnect | CheckDatabase | CreateDatabase | CreateTables
  | CountDashboard | InsertDashboard | CountAssets | InsertAsset nat
  | Connect | Begin | SelectAsset | SelectDashboard | UpdateAsset | UpdateDashboard
  | Commit | Rollback | Release

text \<open>The environment: \<open>env c\<close> holds when call \<open>c\<close> fails with a connection failure.\<close>

type_synonym env = "call \<Rightarrow> bool"

definition no_faults :: env where
  "no_faults = (\<lambda>c. False)"

subsection \<open>Numbers between JavaScript and the store\<close>

text \<open>
  JavaScript numbers are modelled as exact rationals: the rounding error of IEEE
  doubles, \<^verbatim>\<open>NaN\<close> and the infinities are outside this model.

  \<open>parseFloat\<close> is the number read from a \<^verbatim>\<open>DECIMAL(p, 2)\<close> column, which the driver
  hands over as a decimal string; the implicit conversion in
  \<^verbatim>\<open>asset.price_per_token * tokensToBuy\<close> gives the same number.
\<close>

definition parseFloat :: "int \<Rightarrow> rat" where
  "parseFloat c = of_int c / 100"

text \<open>Rounding to the nearest integer, ties away from zero, as \<^verbatim>\<open>numeric\<close> does.\<close>

definition round_half_away :: "rat \<Rightarrow> int" where
  "round_half_away x = (if 0 \<le> x then \<lfloor>x + 1 / 2\<rfloor> else - \<lfloor>- x + 1 / 2\<rfloor>)"

text \<open>
  A number bound to a \<^verbatim>\<open>DECIMAL(p, 2)\<close> column: rounded to two fractional digits, and
  rejected when the rounded value needs more than \<open>p\<close> digits.
\<close>

definition pg_numeric :: "nat \<Rightarrow> rat \<Rightarrow> store_fault + int" where
  "pg_numeric p x =
     (let c = round_half_away (x * 100)
      in if \<bar>c\<bar> < 10 ^ p then Inr c else Inl NumericOverflow)"

text \<open>
  A number bound to an \<^verbatim>\<open>INTEGER\<close> parameter: the driver sends its decimal text, and
  the store rejects a text that is not an integer or is outside 32 bits.
\<close>

definition pg_int4 :: "rat \<Rightarrow> store_fault + int" where
  "pg_int4 x =
     (let i = \<lfloor>x\<rfloor>
      in if of_int i \<noteq> x then Inl InvalidInteger
         else if i < - 2147483648 \<or> 2147483647 < i then Inl IntegerOutOfRange
         else Inr i)"

subsection \<open>The statements of the invest transaction\<close>

text \<open>\<^verbatim>\<open>SELECT * FROM assets WHERE id = $1\<close>\<close>

definition select_asset :: "db \<Rightarrow> rat \<Rightarrow> store_fault + asset_row list" where
  "select_asset d p =
     (case assets d of
        None \<Rightarrow> Inl UndefinedTable
      | Some t \<Rightarrow>
          (case pg_int4 p of
             Inl f \<Rightarrow> Inl f
           | Inr i \<Rightarrow> Inr (filter (\<lambda>a. asset_id a = i) (rows t))))"

text \<open>\<^verbatim>\<open>SELECT * FROM dashboard LIMIT 1\<close>\<close>

definition select_dashboard :: "db \<Rightarrow> store_fault + dashboard_row list" where
  "select_dashboard d =
     (case dashboard d of
        None \<Rightarrow> Inl UndefinedTable
      | Some t \<Rightarrow> Inr (take 1 (rows t)))"

text \<open>\<^verbatim>\<open>UPDATE assets SET tokens_available = tokens_available - $1 WHERE id = $2\<close>\<close>

definition buy_tokens :: "int \<Rightarrow> int \<Rightarrow> asset_row \<Rightarrow> asset_row" where
  "buy_tokens k i a =
     (if asset_id a = i then a\<lparr>tokens_available := tokens_available a - k\<rparr> else a)"

definition update_asset :: "db \<Rightarrow> rat \<Rightarrow> rat \<Rightarrow> store_fault + db" where
  "update_asset d p1 p2 =
     (case assets d of
        None \<Rightarrow> Inl UndefinedTable
      | Some t \<Rightarrow>
          (case pg_int4 p1 of
             Inl f \<Rightarrow> Inl f
           | Inr k \<Rightarrow>
               (case pg_int4 p2 of
                  Inl f \<Rightarrow> Inl f
                | Inr i \<Rightarrow>
                    (let rs = map (buy_tokens k i) (rows t)
                     in if list_all (\<lambda>a. - 2147483648 \<le> tokens_available a
                                         \<and> tokens_available a \<le> 2147483647) rs
                        then Inr (d\<lparr>assets := Some (t\<lparr>rows := rs\<rparr>)\<rparr>)
                        else Inl IntegerOutOfRange))))"

text \<open>
  \<^verbatim>\<open>UPDATE dashboard SET wallet_balance = $1, total_investment = $2,
  monthly_yield = $3 WHERE id = $4\<close>; the fourth parameter is the \<^verbatim>\<open>id\<close> read from
  the row.
\<close>

definition set_dashboard :: "int \<Rightarrow> int \<Rightarrow> int \<Rightarrow> int \<Rightarrow> dashboard_row \<Rightarrow> dashboard_row" where
  "set_dashboard w ti my i r =
     (if dashboard_id r = i
      then r\<lparr>wallet_balance := w, total_investment := ti, monthly_yield := my\<rparr>
      else r)"

definition update_dashboard :: "db \<Rightarrow> rat \<Rightarrow> rat \<Rightarrow> rat \<Rightarrow> int \<Rightarrow> store_fault + db" where
  "update_dashboard d p1 p2 p3 i =
     (case dashboard d of
        None \<Rightarrow> Inl UndefinedTable
      | Some t \<Rightarrow>
          (case pg_numeric 15 p1 of
             Inl f \<Rightarrow> Inl f
           | Inr w \<Rightarrow>
               (case pg_numeric 15 p2 of
                  Inl f \<Rightarrow> Inl f
                | Inr ti \<Rightarrow>
                    (case pg_numeric 15 p3 of
                       Inl f \<Rightarrow> Inl f
                     | Inr my \<Rightarrow>
                         Inr (d\<lparr>dashboard :=
                                  Some (t\<lparr>rows := map (set_dashboard w ti my i) (rows t)\<rparr>)\<rparr>)))))"

section \<open>The request and the response\<close>

text \<open>
  A field of the JSON body of \<^verbatim>\<open>POST /invest\<close>: absent, \<^verbatim>\<open>null\<close> or a number. A
  string, a boolean, an array or an object in a field is outside this model.
\<close>

datatype jsval = JUndefined | JNull | JNum rat

record request =
  assetId :: jsval
  tokensToBuy :: jsval

text \<open>\<^verbatim>\<open>!v\<close> is the negation of \<open>truthy v\<close>.\<close>

fun truthy :: "jsval \<Rightarrow> bool" where
  "truthy JUndefined = False"
| "truthy JNull = False"
| "truthy (JNum x) = (x \<noteq> 0)"

text \<open>\<^verbatim>\<open>v <= 0\<close>: \<^verbatim>\<open>undefined\<close> converts to \<^verbatim>\<open>NaN\<close>, which compares false; \<^verbatim>\<open>null\<close> to 0.\<close>

fun le_zero :: "jsval \<Rightarrow> bool" where
  "le_zero JUndefined = False"
| "le_zero JNull = True"
| "le_zero (JNum x) = (x \<le> 0)"

text \<open>The guard of line 136: the request is answered at once when it holds.\<close>

definition malformed :: "request \<Rightarrow> bool" where
  "malformed req \<longleftrightarrow>
     \<not> truthy (assetId req) \<or> \<not> truthy (tokensToBuy req) \<or> le_zero (tokensToBuy req)"

text \<open>
  The two numbers of a request that passed the guard. Only numbers pass it (lemma
  \<open>validate_None\<close> below), so the last case is never taken after the guard.
\<close>

definition validate :: "request \<Rightarrow> (rat \<times> rat) option" where
  "validate req =
     (if malformed req then None
      else (case (assetId req, tokensToBuy req) of
              (JNum a, JNum n) \<Rightarrow> Some (a, n)
            | _ \<Rightarrow> None))"

text \<open>
  What is thrown inside the \<^verbatim>\<open>try\<close> block: \<^verbatim>\<open>new Error(msg)\<close> of the handler itself,
  the \<^verbatim>\<open>TypeError\<close> of reading a property of \<^verbatim>\<open>undefined\<close>, or a failure of a store
  call.
\<close>

datatype exn = Error string | TypeError | StoreError store_fault

text \<open>
  \<^verbatim>\<open>err.message\<close>. The text of the handler's own errors is in the source; the text the
  engine or the store puts into its exceptions is not, and is kept abstract.
\<close>

datatype message = Text string | EngineText | StoreText store_fault

fun message_of :: "exn \<Rightarrow> message" where
  "message_of (Error s) = Text s"
| "message_of TypeError = EngineText"
| "message_of (StoreError f) = StoreText f"

record investment =
  spent :: rat
  remainingBalance :: rat
  newTotalInvestment :: rat
  newMonthlyYield :: rat

datatype body = Failure message | Success investment

record response =
  status :: nat
  body :: body

section \<open>The handler of POST /invest\<close>

text \<open>
  One store call of the transaction: it fails when the environment says so, and
  otherwise does what the statement does.
\<close>

definition query :: "env \<Rightarrow> call \<Rightarrow> store_fault + 'a \<Rightarrow> exn + 'a" where
  "query e c r =
     (if e c then Inl (StoreError ConnectionFailure)
      else (case r of Inl f \<Rightarrow> Inl (StoreError f) | Inr x \<Rightarrow> Inr x))"

text \<open>
  The \<^verbatim>\<open>try\<close> block (lines 142 to 195), from \<^verbatim>\<open>BEGIN\<close> to \<^verbatim>\<open>COMMIT\<close>. It returns what
  was thrown, or the data of the success response with the database the transaction
  has written; and the store calls it made.
\<close>

definition attempt :: "env \<Rightarrow> db \<Rightarrow> rat \<Rightarrow> rat \<Rightarrow> (exn + investment \<times> db) \<times> call list" where
  "attempt e d a n =
     (case query e Begin (Inr ()) of
        Inl x \<Rightarrow> (Inl x, [Begin])
      | Inr _ \<Rightarrow>
     (case query e SelectAsset (select_asset d a) of
        Inl x \<Rightarrow> (Inl x, [Begin, SelectAsset])
      | Inr [] \<Rightarrow> (Inl (Error ''Asset not found''), [Begin, SelectAsset])
      | Inr (asset # _) \<Rightarrow>
     if of_int (tokens_available asset) < n
     then (Inl (Error ''Not enough tokens available in this asset''), [Begin, SelectAsset])
     else
       let totalCost = parseFloat (price_per_token asset) * n in
     (case query e SelectDashboard (select_dashboard d) of
        Inl x \<Rightarrow> (Inl x, [Begin, SelectAsset, SelectDashboard])
      | Inr [] \<Rightarrow> (Inl TypeError, [Begin, SelectAsset, SelectDashboard])
      | Inr (dash # _) \<Rightarrow>
     if parseFloat (wallet_balance dash) < totalCost
     then (Inl (Error ''Insufficient wallet balance to complete transaction''),
           [Begin, SelectAsset, SelectDashboard])
     else
     (case query e UpdateAsset (update_asset d n a) of
        Inl x \<Rightarrow> (Inl x, [Begin, SelectAsset, SelectDashboard, UpdateAsset])
      | Inr d1 \<Rightarrow>
       let newTotalInvestment = parseFloat (total_investment dash) + totalCost;
           newWalletBalance = parseFloat (wallet_balance dash) - totalCost;
           addedMonthlyYield = (totalCost * (parseFloat (apy asset) / 100)) / 12;
           newMonthlyYield = parseFloat (monthly_yield dash) + addedMonthlyYield
       in
     (case query e UpdateDashboard
             (update_dashboard d1 newWalletBalance newTotalInvestment newMonthlyYield
                (dashboard_id dash)) of
        Inl x \<Rightarrow> (Inl x, [Begin, SelectAsset, SelectDashboard, UpdateAsset, UpdateDashboard])
      | Inr d2 \<Rightarrow>
     (case query e Commit (Inr ()) of
        Inl x \<Rightarrow> (Inl x, [Begin, SelectAsset, SelectDashboard, UpdateAsset, UpdateDashboard,
                          Commit])
      | Inr _ \<Rightarrow>
          (Inr (\<lparr>spent = totalCost, remainingBalance = newWalletBalance,
                 newTotalInvestment = newTotalInvestment,
                 newMonthlyYield = newMonthlyYield\<rparr>, d2),
           [Begin, SelectAsset, SelectDashboard, UpdateAsset, UpdateDashboard,
            Commit])))))))"

text \<open>
  What a request leaves behind: the response (\<open>None\<close> when the handler's promise is
  rejected before it has answered), the database, and the store calls made.
\<close>

record outcome =
  reply :: "response option"
  store :: db
  calls :: "call list"

definition invest :: "env \<Rightarrow> db \<Rightarrow> request \<Rightarrow> outcome" where
  "invest e d req =
     (case validate req of
        None \<Rightarrow>
          \<lparr>reply = Some \<lparr>status = 400,
                          body = Failure (Text ''Valid assetId and tokensToBuy are required'')\<rparr>,
           store = d, calls = []\<rparr>
      | Some (a, n) \<Rightarrow>
          if e Connect then \<lparr>reply = None, store = d, calls = [Connect]\<rparr>
          else
            (case attempt e d a n of
               (Inr (bought, d'), cs) \<Rightarrow>
                 \<lparr>reply = Some \<lparr>status = 200, body = Success bought\<rparr>,
                  store = d', calls = Connect # cs @ [Release]\<rparr>
             | (Inl x, cs) \<Rightarrow>
                 if e Rollback
                 then \<lparr>reply = None, store = d, calls = Connect # cs @ [Rollback, Release]\<rparr>
                 else \<lparr>reply = Some \<lparr>status = 400, body = Failure (message_of x)\<rparr>,
                       store = d, calls = Connect # cs @ [Rollback, Release]\<rparr>))"

section \<open>Schema creation and seeding\<close>

text \<open>
  The server: \<open>None\<close> while the database \<^verbatim>\<open>onblock\<close> does not exist. What the
  functions of this section print to the console is not modelled.
\<close>

type_synonym server = "db option"

text \<open>
  \<open>ensureDatabaseExists\<close> (lines 19 to 43): a failure is caught and logged, and leaves
  the server as it was.
\<close>

definition ensureDatabaseExists :: "env \<Rightarrow> server \<Rightarrow> server" where
  "ensureDatabaseExists e s =
     (if e AdminConnect \<or> e CheckDatabase then s
      else (case s of
              None \<Rightarrow> if e CreateDatabase then None else Some \<lparr>dashboard = None, assets = None\<rparr>
            | Some d \<Rightarrow> Some d))"

text \<open>\<open>createTablesQuery\<close>: both statements are \<^verbatim>\<open>CREATE TABLE IF NOT EXISTS\<close>.\<close>

definition create_if_not_exists :: "'r table option \<Rightarrow> 'r table option" where
  "create_if_not_exists t = (case t of None \<Rightarrow> Some \<lparr>rows = [], serial = 0\<rparr> | Some x \<Rightarrow> Some x)"

definition createTablesQuery :: "db \<Rightarrow> db" where
  "createTablesQuery d =
     \<lparr>dashboard = create_if_not_exists (dashboard d), assets = create_if_not_exists (assets d)\<rparr>"

text \<open>\<^verbatim>\<open>SELECT COUNT(*) FROM dashboard\<close> and \<^verbatim>\<open>SELECT COUNT(*) FROM assets\<close>\<close>

definition count_rows :: "'r table option \<Rightarrow> store_fault + nat" where
  "count_rows t = (case t of None \<Rightarrow> Inl UndefinedTable | Some x \<Rightarrow> Inr (length (rows x)))"

text \<open>
  \<^verbatim>\<open>INSERT INTO dashboard (wallet_balance, total_investment, monthly_yield) VALUES ...\<close>:
  the \<^verbatim>\<open>id\<close> is the next value of the sequence.
\<close>

definition insert_dashboard :: "db \<Rightarrow> rat \<times> rat \<times> rat \<Rightarrow> store_fault + db" where
  "insert_dashboard d v =
     (case v of (w, ti, my) \<Rightarrow>
     (case dashboard d of
        None \<Rightarrow> Inl UndefinedTable
      | Some t \<Rightarrow>
     (case pg_numeric 15 w of Inl f \<Rightarrow> Inl f | Inr w' \<Rightarrow>
     (case pg_numeric 15 ti of Inl f \<Rightarrow> Inl f | Inr ti' \<Rightarrow>
     (case pg_numeric 15 my of Inl f \<Rightarrow> Inl f | Inr my' \<Rightarrow>
        Inr (d\<lparr>dashboard := Some
               \<lparr>rows = rows t @ [\<lparr>dashboard_id = serial t + 1, wallet_balance = w',
                                  total_investment = ti', monthly_yield = my'\<rparr>],
                serial = serial t + 1\<rparr>\<rparr>))))))"

text \<open>
  \<^verbatim>\<open>INSERT INTO assets (name, location, apy, price_per_token, tokens_available)
  VALUES ($1, $2, $3, $4, $5)\<close>
\<close>

definition insert_asset ::
  "db \<Rightarrow> string \<times> string \<times> rat \<times> rat \<times> rat \<Rightarrow> store_fault + db" where
  "insert_asset d v =
     (case v of (nm, loc, y, p, k) \<Rightarrow>
     (case assets d of
        None \<Rightarrow> Inl UndefinedTable
      | Some t \<Rightarrow>
     (case pg_numeric 5 y of Inl f \<Rightarrow> Inl f | Inr y' \<Rightarrow>
     (case pg_numeric 15 p of Inl f \<Rightarrow> Inl f | Inr p' \<Rightarrow>
     (case pg_int4 k of Inl f \<Rightarrow> Inl f | Inr k' \<Rightarrow>
        Inr (d\<lparr>assets := Some
               \<lparr>rows = rows t @ [\<lparr>asset_id = serial t + 1, name = nm, location = loc,
                                  apy = y', price_per_token = p', tokens_available = k'\<rparr>],
                serial = serial t + 1\<rparr>\<rparr>))))))"

definition dummyAssets :: "(string \<times> string \<times> rat \<times> rat \<times> rat) list" where
  "dummyAssets =
     [(''Skyline Apartments'', ''New York, NY'', 85 / 10, 50, 1000),
      (''Ocean View Villa'', ''Miami, FL'', 12, 150, 500),
      (''Mountain Retreat'', ''Aspen, CO'', 102 / 10, 75, 800),
      (''Downtown Office'', ''Chicago, IL'', 98 / 10, 120, 1200)]"

text \<open>
  The loop of lines 83 to 88. Each insert is a statement of its own on the pool, so
  the rows inserted before a failure stay; \<open>j\<close> counts the inserts.
\<close>

fun insert_all ::
  "env \<Rightarrow> nat \<Rightarrow> (string \<times> string \<times> rat \<times> rat \<times> rat) list \<Rightarrow> db \<Rightarrow> db" where
  "insert_all e j [] d = d"
| "insert_all e j (v # vs) d =
     (case query e (InsertAsset j) (insert_asset d v) of
        Inl x \<Rightarrow> d
      | Inr d' \<Rightarrow> insert_all e (Suc j) vs d')"

text \<open>\<open>seedData\<close> (lines 67 to 94): whatever is thrown ends it, and is caught and logged.\<close>

definition seedData :: "env \<Rightarrow> db \<Rightarrow> db" where
  "seedData e d =
     (case query e CountDashboard (count_rows (dashboard d)) of
        Inl x \<Rightarrow> d
      | Inr c \<Rightarrow>
     (case (if c = 0
            then query e InsertDashboard (insert_dashboard d (15000, 5200, 4355 / 10))
            else Inr d) of
        Inl x \<Rightarrow> d
      | Inr d1 \<Rightarrow>
     (case query e CountAssets (count_rows (assets d1)) of
        Inl x \<Rightarrow> d1
      | Inr c' \<Rightarrow> if c' = 0 then insert_all e 0 dummyAssets d1 else d1)))"

text \<open>
  \<open>initDB\<close> (lines 97 to 106). The pool connects to \<^verbatim>\<open>onblock\<close>: while that database
  does not exist, the statement that creates the tables throws.
\<close>

definition initDB :: "env \<Rightarrow> server \<Rightarrow> server" where
  "initDB e s =
     (case ensureDatabaseExists e s of
        None \<Rightarrow> None
      | Some d \<Rightarrow>
          (case query e CreateTables (Inr (createTablesQuery d)) of
             Inl x \<Rightarrow> Some d
           | Inr d' \<Rightarrow> Some (seedData e d')))"

text \<open>The database after the first start of the server on a fresh store.\<close>

definition seeded :: db where
  "seeded =
     \<lparr>dashboard = Some
        \<lparr>rows = [\<lparr>dashboard_id = 1, wallet_balance = 1500000, total_investment = 520000,
                  monthly_yield = 43550\<rparr>],
         serial = 1\<rparr>,
      assets = Some
        \<lparr>rows = [\<lparr>asset_id = 1, name = ''Skyline Apartments'', location = ''New York, NY'',
                  apy = 850, price_per_token = 5000, tokens_available = 1000\<rparr>,
                 \<lparr>asset_id = 2, name = ''Ocean View Villa'', location = ''Miami, FL'',
                  apy = 1200, price_per_token = 15000, tokens_available = 500\<rparr>,
                 \<lparr>asset_id = 3, name = ''Mountain Retreat'', location = ''Aspen, CO'',
                  apy = 1020, price_per_token = 7500, tokens_available = 800\<rparr>,
                 \<lparr>asset_id = 4, name = ''Downtown Office'', location = ''Chicago, IL'',
                  apy = 980, price_per_token = 12000, tokens_available = 1200\<rparr>],
         serial = 4\<rparr>\<rparr>"


section \<open>Constraints of the schema\<close>

text \<open>
  \<^verbatim>\<open>id SERIAL PRIMARY KEY\<close>: the keys of a table are pairwise different, and a key
  is a value of its sequence, between 1 and the largest 32-bit integer.
\<close>

definition serial_key :: "int \<Rightarrow> bool" where
  "serial_key i \<longleftrightarrow> 1 \<le> i \<and> i \<le> 2147483647"

definition primary_keys :: "db \<Rightarrow> bool" where
  "primary_keys d \<longleftrightarrow>
     (case assets d of
        None \<Rightarrow> True
      | Some t \<Rightarrow> distinct (map asset_id (rows t)) \<and> list_all serial_key (map asset_id (rows t))) \<and>
     (case dashboard d of
        None \<Rightarrow> True
      | Some t \<Rightarrow> distinct (map dashboard_id (rows t))
                 \<and> list_all serial_key (map dashboard_id (rows t)))"

text \<open>The invariant of the data model: no negative inventory, no negative balance.\<close>

definition non_negative :: "db \<Rightarrow> bool" where
  "non_negative d \<longleftrightarrow>
     (case assets d of None \<Rightarrow> True | Some t \<Rightarrow> list_all (\<lambda>a. 0 \<le> tokens_available a) (rows t)) \<and>
     (case dashboard d of None \<Rightarrow> True | Some t \<Rightarrow> list_all (\<lambda>r. 0 \<le> wallet_balance r) (rows t))"

section \<open>Facts about the numbers\<close>

lemma pg_int4_Inr: "pg_int4 x = Inr i \<Longrightarrow> x = of_int i"
  by (auto simp: pg_int4_def Let_def split: if_splits)

lemma pg_int4_of_int:
  "- 2147483648 \<le> i \<Longrightarrow> i \<le> 2147483647 \<Longrightarrow> pg_int4 (of_int i) = Inr i"
  by (simp add: pg_int4_def)

lemma round_half_away_of_int: "round_half_away (of_int z) = z"
  by (auto simp: round_half_away_def) linarith+


lemma round_cents_sub:
  "round_half_away ((parseFloat w - parseFloat p * of_int k) * 100) = w - p * k"
proof -
  have "(parseFloat w - parseFloat p * of_int k) * 100 = (of_int (w - p * k) :: rat)"
    by (simp add: parseFloat_def field_simps)
  then show ?thesis by (simp only: round_half_away_of_int)
qed

lemma round_cents_add:
  "round_half_away ((parseFloat w + parseFloat p * of_int k) * 100) = w + p * k"
proof -
  have "(parseFloat w + parseFloat p * of_int k) * 100 = (of_int (w + p * k) :: rat)"
    by (simp add: parseFloat_def field_simps)
  then show ?thesis by (simp only: round_half_away_of_int)
qed


lemma seed_values:
  "pg_numeric 15 15000 = Inr 1500000" "pg_numeric 15 5200 = Inr 520000"
  "pg_numeric 15 (4355 / 10) = Inr 43550"
  "pg_numeric 5 (85 / 10) = Inr 850" "pg_numeric 15 50 = Inr 5000" "pg_int4 1000 = Inr 1000"
  "pg_numeric 5 12 = Inr 1200" "pg_numeric 15 150 = Inr 15000" "pg_int4 500 = Inr 500"
  "pg_numeric 5 (102 / 10) = Inr 1020" "pg_numeric 15 75 = Inr 7500" "pg_int4 800 = Inr 800"
  "pg_numeric 5 (98 / 10) = Inr 980" "pg_numeric 15 120 = Inr 12000" "pg_int4 1200 = Inr 1200"
  "pg_numeric 15 (871 / 2) = Inr 43550" "pg_numeric 5 (17 / 2) = Inr 850"
  "pg_numeric 5 (51 / 5) = Inr 1020" "pg_numeric 5 (49 / 5) = Inr 980"
  by code_simp+

section \<open>Facts about the statements\<close>

lemma filter_key:
  "distinct (map f xs) \<Longrightarrow> x \<in> set xs \<Longrightarrow> filter (\<lambda>r. f r = f x) xs = [x]"
proof (induction xs)
  case Nil
  then show ?case by simp
next
  case (Cons y ys)
  show ?case
  proof (cases "x = y")
    case True
    with Cons.prems have "\<forall>r \<in> set ys. f r \<noteq> f x"
      by (auto simp: image_iff)
    then have "filter (\<lambda>r. f r = f x) ys = []"
      by (simp add: filter_empty_conv)
    with True show ?thesis by simp
  next
    case False
    with Cons.prems have "x \<in> set ys" "f y \<noteq> f x" "distinct (map f ys)"
      by (auto simp: image_iff)
    with Cons.IH show ?thesis by simp
  qed
qed


lemma primary_keys_assets:
  "primary_keys d \<Longrightarrow> assets d = Some A \<Longrightarrow>
     distinct (map asset_id (rows A)) \<and> (\<forall>r \<in> set (rows A). serial_key (asset_id r))"
  by (simp add: primary_keys_def list_all_iff)

lemma select_asset_Cons:
  assumes "select_asset d (of_int i) = Inr (ast # arest)"
  shows "\<exists>t. assets d = Some t \<and> ast \<in> set (rows t) \<and> asset_id ast = i"
proof -
  from assms obtain t j where t: "assets d = Some t" and j: "pg_int4 (of_int i) = Inr j"
    and f: "filter (\<lambda>a. asset_id a = j) (rows t) = ast # arest"
    by (auto simp: select_asset_def split: option.splits sum.splits)
  from j have "j = i" by (auto dest: pg_int4_Inr)
  moreover from f have "ast \<in> set (filter (\<lambda>a. asset_id a = j) (rows t))" by simp
  ultimately show ?thesis using t by auto
qed

lemma select_asset_found:
  assumes "primary_keys d" "assets d = Some A" "ast \<in> set (rows A)"
  shows "select_asset d (of_int (asset_id ast)) = Inr [ast]"
proof -
  from primary_keys_assets [OF assms(1,2)] assms(3)
  have ds: "distinct (map asset_id (rows A))" and sk: "serial_key (asset_id ast)"
    by blast+
  from sk have "pg_int4 (of_int (asset_id ast)) = Inr (asset_id ast)"
    by (simp add: serial_key_def pg_int4_of_int)
  with filter_key [OF ds assms(3)] assms(2) show ?thesis
    by (simp add: select_asset_def)
qed


lemma select_dashboard_Cons:
  assumes "select_dashboard d = Inr (dsh # drest)"
  shows "\<exists>t rest. dashboard d = Some t \<and> rows t = dsh # rest"
proof -
  from assms obtain t where t: "dashboard d = Some t" and tk: "take 1 (rows t) = dsh # drest"
    by (auto simp: select_dashboard_def split: option.splits)
  from tk obtain rest where "rows t = dsh # rest"
    by (cases "rows t") auto
  with t show ?thesis by blast
qed

lemma update_asset_Inr:
  assumes "update_asset d p1 p2 = Inr d1"
  shows "\<exists>t k i. assets d = Some t \<and> p1 = of_int k \<and> p2 = of_int i \<and>
           d1 = d\<lparr>assets := Some (t\<lparr>rows := map (buy_tokens k i) (rows t)\<rparr>)\<rparr>"
  using assms
  by (auto simp: update_asset_def Let_def split: option.splits sum.splits if_splits
           dest!: pg_int4_Inr)

lemma update_dashboard_Inr:
  assumes "update_dashboard d p1 p2 p3 i = Inr d'"
  shows "\<exists>t. dashboard d = Some t \<and>
           d' = d\<lparr>dashboard := Some (t\<lparr>rows :=
                  map (set_dashboard (round_half_away (p1 * 100)) (round_half_away (p2 * 100))
                         (round_half_away (p3 * 100)) i) (rows t)\<rparr>)\<rparr>"
  using assms
  by (auto simp: update_dashboard_def pg_numeric_def Let_def
           split: option.splits sum.splits if_splits)



lemma query_no_faults:
  "query no_faults c r = (case r of Inl f \<Rightarrow> Inl (StoreError f) | Inr x \<Rightarrow> Inr x)"
  by (simp add: query_def no_faults_def)

lemma seeded_primary_keys: "primary_keys seeded"
  by (simp add: primary_keys_def seeded_def serial_key_def)

lemma seeded_non_negative: "non_negative seeded"
  by (simp add: non_negative_def seeded_def)

section \<open>Facts about the handler\<close>


lemma validate_Some:
  "validate req = Some (a, n) \<longleftrightarrow>
     assetId req = JNum a \<and> tokensToBuy req = JNum n \<and> a \<noteq> 0 \<and> 0 < n"
  by (cases "assetId req"; cases "tokensToBuy req") (auto simp: validate_def malformed_def)


lemma attempt_Inr:
  assumes "attempt e d a n = (Inr (b, d'), cs)"
  shows "\<exists>ast arest dsh drest d1.
           select_asset d a = Inr (ast # arest) \<and>
           \<not> of_int (tokens_available ast) < n \<and>
           select_dashboard d = Inr (dsh # drest) \<and>
           \<not> parseFloat (wallet_balance dsh) < parseFloat (price_per_token ast) * n \<and>
           update_asset d n a = Inr d1 \<and>
           update_dashboard d1
             (parseFloat (wallet_balance dsh) - parseFloat (price_per_token ast) * n)
             (parseFloat (total_investment dsh) + parseFloat (price_per_token ast) * n)
             (parseFloat (monthly_yield dsh)
                + (parseFloat (price_per_token ast) * n * (parseFloat (apy ast) / 100)) / 12)
             (dashboard_id dsh) = Inr d' \<and>
           b = \<lparr>spent = parseFloat (price_per_token ast) * n,
                remainingBalance =
                  parseFloat (wallet_balance dsh) - parseFloat (price_per_token ast) * n,
                newTotalInvestment =
                  parseFloat (total_investment dsh) + parseFloat (price_per_token ast) * n,
                newMonthlyYield =
                  parseFloat (monthly_yield dsh)
                    + (parseFloat (price_per_token ast) * n * (parseFloat (apy ast) / 100)) / 12\<rparr>"
  using assms
  by (auto simp: attempt_def query_def Let_def split: sum.splits list.splits if_splits)


lemma attempt_not_enough:
  "select_asset d a = Inr (ast # others) \<Longrightarrow> of_int (tokens_available ast) < n \<Longrightarrow>
     attempt no_faults d a n =
       (Inl (Error ''Not enough tokens available in this asset''), [Begin, SelectAsset])"
  by (simp add: attempt_def query_def no_faults_def)

lemma attempt_no_dashboard:
  "select_asset d a = Inr (ast # others) \<Longrightarrow> \<not> of_int (tokens_available ast) < n \<Longrightarrow>
   select_dashboard d = Inr [] \<Longrightarrow>
     attempt no_faults d a n = (Inl TypeError, [Begin, SelectAsset, SelectDashboard])"
  by (simp add: attempt_def query_def no_faults_def)


lemma attempt_Inl_not_enough:
  assumes "attempt e d a n = (Inl (Error ''Not enough tokens available in this asset''), cs)"
  shows "\<exists>ast others. select_asset d a = Inr (ast # others) \<and> of_int (tokens_available ast) < n"
  using assms
  by (auto simp: attempt_def query_def Let_def split: sum.splits list.splits if_splits)

lemma invest_store:
  "store (invest e d req) = d \<or>
   (\<exists>a n b cs. validate req = Some (a, n) \<and>
        attempt e d a n = (Inr (b, store (invest e d req)), cs) \<and>
        reply (invest e d req) = Some \<lparr>status = 200, body = Success b\<rparr>)"
  by (auto simp: invest_def split: option.splits sum.splits prod.splits)

lemma invest_store_cases:
  "store (invest e d req) = d \<or>
   (\<exists>b. reply (invest e d req) = Some \<lparr>status = 200, body = Success b\<rparr>)"
  using invest_store by blast

lemma invest_success:
  assumes "reply (invest e d req) = Some \<lparr>status = 200, body = Success b\<rparr>"
  shows "\<exists>a n cs. validate req = Some (a, n) \<and>
        attempt e d a n = (Inr (b, store (invest e d req)), cs)"
  using assms
  by (auto simp: invest_def split: option.splits sum.splits prod.splits if_splits)

lemma invest_success_state:
  assumes "reply (invest e d req) = Some \<lparr>status = 200, body = Success b\<rparr>"
  shows "\<exists>i k A D ast dsh rest.
           assetId req = JNum (of_int i) \<and> tokensToBuy req = JNum (of_int k) \<and>
           i \<noteq> 0 \<and> 0 < k \<and>
           assets d = Some A \<and> ast \<in> set (rows A) \<and> asset_id ast = i \<and>
           k \<le> tokens_available ast \<and>
           dashboard d = Some D \<and> rows D = dsh # rest \<and>
           price_per_token ast * k \<le> wallet_balance dsh \<and>
           spent b = parseFloat (price_per_token ast) * of_int k \<and>
           remainingBalance b = parseFloat (wallet_balance dsh) - spent b \<and>
           newTotalInvestment b = parseFloat (total_investment dsh) + spent b \<and>
           newMonthlyYield b =
             parseFloat (monthly_yield dsh) + (spent b * (parseFloat (apy ast) / 100)) / 12 \<and>
           store (invest e d req) =
             \<lparr>dashboard = Some (D\<lparr>rows :=
                 map (set_dashboard (wallet_balance dsh - price_per_token ast * k)
                        (total_investment dsh + price_per_token ast * k)
                        (round_half_away (newMonthlyYield b * 100)) (dashboard_id dsh))
                   (rows D)\<rparr>),
              assets = Some (A\<lparr>rows := map (buy_tokens k i) (rows A)\<rparr>)\<rparr>"
proof -
  from invest_success [OF assms] obtain a n cs where
    v: "validate req = Some (a, n)" and
    at: "attempt e d a n = (Inr (b, store (invest e d req)), cs)"
    by blast
  from attempt_Inr [OF at] obtain ast arest dsh drest d1 where
    sa: "select_asset d a = Inr (ast # arest)" and
    tk: "\<not> of_int (tokens_available ast) < n" and
    sd: "select_dashboard d = Inr (dsh # drest)" and
    wl: "\<not> parseFloat (wallet_balance dsh) < parseFloat (price_per_token ast) * n" and
    ua: "update_asset d n a = Inr d1" and
    ud: "update_dashboard d1
             (parseFloat (wallet_balance dsh) - parseFloat (price_per_token ast) * n)
             (parseFloat (total_investment dsh) + parseFloat (price_per_token ast) * n)
             (parseFloat (monthly_yield dsh)
                + (parseFloat (price_per_token ast) * n * (parseFloat (apy ast) / 100)) / 12)
             (dashboard_id dsh) = Inr (store (invest e d req))" and
    b: "b = \<lparr>spent = parseFloat (price_per_token ast) * n,
                remainingBalance =
                  parseFloat (wallet_balance dsh) - parseFloat (price_per_token ast) * n,
                newTotalInvestment =
                  parseFloat (total_investment dsh) + parseFloat (price_per_token ast) * n,
                newMonthlyYield =
                  parseFloat (monthly_yield dsh)
                    + (parseFloat (price_per_token ast) * n * (parseFloat (apy ast) / 100)) / 12\<rparr>"
    by blast
  from update_asset_Inr [OF ua] obtain A k i where
    A: "assets d = Some A" and n: "n = of_int k" and a: "a = of_int i" and
    d1: "d1 = d\<lparr>assets := Some (A\<lparr>rows := map (buy_tokens k i) (rows A)\<rparr>)\<rparr>"
    by blast
  from v n a have req: "assetId req = JNum (of_int i)" "tokensToBuy req = JNum (of_int k)"
    "i \<noteq> 0" "0 < k"
    by (auto simp: validate_Some)
  from select_asset_Cons sa a A have ast: "ast \<in> set (rows A)" "asset_id ast = i"
    by fastforce+
  from tk n have k: "k \<le> tokens_available ast"
    by (simp add: not_less)
  from select_dashboard_Cons [OF sd] obtain D rest where
    D: "dashboard d = Some D" "rows D = dsh # rest"
    by blast
  from wl n have "(of_int (price_per_token ast * k) :: rat) \<le> of_int (wallet_balance dsh)"
    by (simp add: parseFloat_def not_less field_simps)
  then have w: "price_per_token ast * k \<le> wallet_balance dsh"
    by (simp only: of_int_le_iff)
  from update_dashboard_Inr [OF ud] d1 D
  have st: "store (invest e d req) =
      \<lparr>dashboard = Some (D\<lparr>rows :=
         map (set_dashboard
                (round_half_away ((parseFloat (wallet_balance dsh)
                    - parseFloat (price_per_token ast) * n) * 100))
                (round_half_away ((parseFloat (total_investment dsh)
                    + parseFloat (price_per_token ast) * n) * 100))
                (round_half_away (newMonthlyYield b * 100)) (dashboard_id dsh))
           (rows D)\<rparr>),
       assets = Some (A\<lparr>rows := map (buy_tokens k i) (rows A)\<rparr>)\<rparr>"
    by (cases d) (auto simp: b)
  note st' = st [unfolded n round_cents_sub round_cents_add]
  have sp: "spent b = parseFloat (price_per_token ast) * of_int k"
    and rb: "remainingBalance b = parseFloat (wallet_balance dsh) - spent b"
    and nt: "newTotalInvestment b = parseFloat (total_investment dsh) + spent b"
    and ny: "newMonthlyYield b =
             parseFloat (monthly_yield dsh) + (spent b * (parseFloat (apy ast) / 100)) / 12"
    by (simp_all add: b n)
  show ?thesis
    using req ast k D w A st' sp rb nt ny by blast
qed

lemma invest_failed:
  assumes "validate req = Some (a, n)" "attempt no_faults d a n = (Inl x, cs)"
  shows "invest no_faults d req =
           \<lparr>reply = Some \<lparr>status = 400, body = Failure (message_of x)\<rparr>,
            store = d, calls = Connect # cs @ [Rollback, Release]\<rparr>"
  using assms by (simp add: invest_def no_faults_def)

lemma reply_not_enough:
  assumes "reply (invest e d req) =
             Some \<lparr>status = 400,
                   body = Failure (Text ''Not enough tokens available in this asset'')\<rparr>"
  shows "\<exists>a n ast others. validate req = Some (a, n) \<and> select_asset d a = Inr (ast # others) \<and>
           of_int (tokens_available ast) < n"
proof -
  from assms obtain a n x cs where v: "validate req = Some (a, n)"
    and at: "attempt e d a n = (Inl x, cs)"
    and m: "message_of x = Text ''Not enough tokens available in this asset''"
    by (auto simp: invest_def split: option.splits sum.splits prod.splits if_splits)
  from m have "x = Error ''Not enough tokens available in this asset''"
    by (cases x) auto
  with at attempt_Inl_not_enough v show ?thesis by blast
qed


lemma invest_status:
  "reply (invest e d req) = Some r \<Longrightarrow> status r = 200 \<or> status r = 400"
  by (auto simp: invest_def split: option.splits sum.splits prod.splits if_splits)


section \<open>Facts about seeding\<close>

lemma insert_dashboard_seed:
  assumes "dashboard d = Some t"
  shows "insert_dashboard d (15000, 5200, 871 / 2) =
           Inr (d\<lparr>dashboard := Some
                  \<lparr>rows = rows t @ [\<lparr>dashboard_id = serial t + 1, wallet_balance = 1500000,
                                     total_investment = 520000, monthly_yield = 43550\<rparr>],
                   serial = serial t + 1\<rparr>\<rparr>)"
  using assms by (simp add: insert_dashboard_def seed_values)

lemma insert_all_seed:
  assumes "assets d = Some t"
  shows "insert_all no_faults 0 dummyAssets d =
           d\<lparr>assets := Some
               \<lparr>rows = rows t @
                  [\<lparr>asset_id = serial t + 1, name = ''Skyline Apartments'',
                    location = ''New York, NY'', apy = 850, price_per_token = 5000,
                    tokens_available = 1000\<rparr>,
                   \<lparr>asset_id = serial t + 2, name = ''Ocean View Villa'',
                    location = ''Miami, FL'', apy = 1200, price_per_token = 15000,
                    tokens_available = 500\<rparr>,
                   \<lparr>asset_id = serial t + 3, name = ''Mountain Retreat'',
                    location = ''Aspen, CO'', apy = 1020, price_per_token = 7500,
                    tokens_available = 800\<rparr>,
                   \<lparr>asset_id = serial t + 4, name = ''Downtown Office'',
                    location = ''Chicago, IL'', apy = 980, price_per_token = 12000,
                    tokens_available = 1200\<rparr>],
                serial = serial t + 4\<rparr>\<rparr>"
  using assms
  by (simp add: dummyAssets_def insert_asset_def query_no_faults seed_values)

lemma created: "\<exists>x. create_if_not_exists t = Some x"
  by (cases t) (simp_all add: create_if_not_exists_def)

lemma seedData_tables:
  assumes "dashboard d = Some t" "assets d = Some u"
  shows "\<exists>t' u'. seedData no_faults d = \<lparr>dashboard = Some t', assets = Some u'\<rparr> \<and>
           (rows t \<noteq> [] \<longrightarrow> t' = t) \<and> (rows t = [] \<longrightarrow> length (rows t') = 1) \<and>
           (rows u \<noteq> [] \<longrightarrow> u' = u) \<and> (rows u = [] \<longrightarrow> length (rows u') = 4) \<and>
           rows t' \<noteq> [] \<and> rows u' \<noteq> []"
  using assms
  by (cases d)
     (auto simp: seedData_def query_no_faults count_rows_def insert_dashboard_seed
        insert_all_seed)

lemma initDB_tables:
  "\<exists>t u. initDB no_faults s = Some \<lparr>dashboard = Some t, assets = Some u\<rparr> \<and>
     rows t \<noteq> [] \<and> rows u \<noteq> []"
proof -
  obtain d where d: "ensureDatabaseExists no_faults s = Some d"
    by (cases s) (auto simp: ensureDatabaseExists_def no_faults_def)
  obtain t u where c: "dashboard (createTablesQuery d) = Some t"
    "assets (createTablesQuery d) = Some u"
    using created [of "dashboard d"] created [of "assets d"]
    by (auto simp: createTablesQuery_def)
  from seedData_tables [OF c] obtain t' u' where
    "seedData no_faults (createTablesQuery d) = \<lparr>dashboard = Some t', assets = Some u'\<rparr>"
    "rows t' \<noteq> []" "rows u' \<noteq> []"
    by blast
  with d show ?thesis
    by (simp add: initDB_def query_def no_faults_def)
qed

lemma initDB_seeded_tables:
  assumes "dashboard d = Some t" "rows t \<noteq> []" "assets d = Some u" "rows u \<noteq> []"
  shows "initDB no_faults (Some d) = Some d"
proof -
  from assms(1,3) have c: "createTablesQuery d = d"
    by (cases d) (simp add: createTablesQuery_def create_if_not_exists_def)
  from assms have "seedData no_faults d = d"
    by (simp add: seedData_def query_def no_faults_def count_rows_def)
  with c show ?thesis
    by (simp add: initDB_def ensureDatabaseExists_def query_def no_faults_def)
qed

lemma initDB_twice: "initDB no_faults (initDB no_faults s) = initDB no_faults s"
proof -
  from initDB_tables [of s] obtain t u where
    "initDB no_faults s = Some \<lparr>dashboard = Some t, assets = Some u\<rparr>"
    "rows t \<noteq> []" "rows u \<noteq> []"
    by blast
  then show ?thesis
    by (simp add: initDB_seeded_tables)
qed

lemma initDB_fresh: "initDB no_faults None = Some seeded"
  by code_simp

lemma initDB_seeded: "initDB no_faults (Some seeded) = Some seeded"
  by (rule initDB_seeded_tables [of _ "the (dashboard seeded)" "the (assets seeded)"])
     (simp_all add: seeded_def)

lemma initDB_repeated: "(initDB no_faults ^^ Suc n) None = Some seeded"
  by (induction n) (simp_all add: initDB_fresh initDB_seeded)

lemma initDB_keeps:
  "\<exists>d'. initDB no_faults (Some d) = Some d' \<and>
     (\<forall>t. dashboard d = Some t \<and> rows t \<noteq> [] \<longrightarrow> dashboard d' = Some t) \<and>
     (\<forall>u. assets d = Some u \<and> rows u \<noteq> [] \<longrightarrow> assets d' = Some u)"
proof -
  obtain t u where c: "dashboard (createTablesQuery d) = Some t"
    "assets (createTablesQuery d) = Some u"
    using created [of "dashboard d"] created [of "assets d"]
    by (auto simp: createTablesQuery_def)
  from seedData_tables [OF c] obtain t' u' where
    s: "seedData no_faults (createTablesQuery d) = \<lparr>dashboard = Some t', assets = Some u'\<rparr>"
    "rows t \<noteq> [] \<longrightarrow> t' = t" "rows u \<noteq> [] \<longrightarrow> u' = u"
    by blast
  have "dashboard d = Some x \<Longrightarrow> t = x" "assets d = Some y \<Longrightarrow> u = y" for x y
    using c by (simp_all add: createTablesQuery_def create_if_not_exists_def)
  with s show ?thesis
    by (auto simp: initDB_def ensureDatabaseExists_def query_def no_faults_def)
qed

section \<open>Successful investments\<close>






section \<open>Rejected requests\<close>






text \<open>
  C5. A request for more tokens than the asset it names has available is answered
  with status 400 and the text \<^verbatim>\<open>Not enough tokens available in this asset\<close>, which
  begins with the words of the specification; the transaction is rolled back and the
  database is as before. When the asset has as many tokens as the request asks for,
  that answer is never given, whatever the store does.
\<close>

theorem invest_not_enough_tokens:
  assumes "primary_keys d" "non_negative d" "assets d = Some A" "ast \<in> set (rows A)"
    "assetId req = JNum (of_int (asset_id ast))" "tokensToBuy req = JNum n"
  shows "(of_int (tokens_available ast) < n \<longrightarrow>
            invest no_faults d req =
              \<lparr>reply = Some \<lparr>status = 400,
                 body = Failure (Text ''Not enough tokens available in this asset'')\<rparr>,
               store = d, calls = [Connect, Begin, SelectAsset, Rollback, Release]\<rparr>) \<and>
         (n \<le> of_int (tokens_available ast) \<longrightarrow>
            reply (invest e d req) \<noteq>
              Some \<lparr>status = 400,
                    body = Failure (Text ''Not enough tokens available in this asset'')\<rparr>) \<and>
         prefix ''Not enough tokens available'' ''Not enough tokens available in this asset''"
proof (intro conjI impI)
  note sa = select_asset_found [OF assms(1,3,4)]
  {
    assume lt: "of_int (tokens_available ast) < n"
    from assms(2,3,4) have "0 \<le> tokens_available ast"
      by (auto simp: non_negative_def list_all_iff)
    then have "(0 :: rat) \<le> of_int (tokens_available ast)" by simp
    with lt have n: "0 < n" by linarith
    from primary_keys_assets [OF assms(1,3)] assms(4) have "asset_id ast \<noteq> 0"
      by (auto simp: serial_key_def)
    with assms(5,6) n have v: "validate req = Some (of_int (asset_id ast), n)"
      by (simp add: validate_Some)
    from invest_failed [OF v attempt_not_enough [OF sa lt]]
    show "invest no_faults d req =
              \<lparr>reply = Some \<lparr>status = 400,
                 body = Failure (Text ''Not enough tokens available in this asset'')\<rparr>,
               store = d, calls = [Connect, Begin, SelectAsset, Rollback, Release]\<rparr>"
      by simp
  }
  {
    assume ge: "n \<le> of_int (tokens_available ast)"
    show "reply (invest e d req) \<noteq>
              Some \<lparr>status = 400,
                    body = Failure (Text ''Not enough tokens available in this asset'')\<rparr>"
    proof
      assume "reply (invest e d req) =
              Some \<lparr>status = 400,
                    body = Failure (Text ''Not enough tokens available in this asset'')\<rparr>"
      from reply_not_enough [OF this] obtain a m ast' others where
        v: "validate req = Some (a, m)" and s: "select_asset d a = Inr (ast' # others)" and
        lt: "of_int (tokens_available ast') < m"
        by blast
      from v assms(5,6) have "a = of_int (asset_id ast)" "m = n"
        by (auto simp: validate_Some)
      with s sa lt have "of_int (tokens_available ast) < n" by simp
      with ge show False by simp
    qed
  }
  show "prefix ''Not enough tokens available'' ''Not enough tokens available in this asset''"
    by simp
qed

theorem invest_not_enough_tokens_witness:
  "primary_keys seeded \<and> non_negative seeded \<and>
   invest no_faults seeded \<lparr>assetId = JNum 1, tokensToBuy = JNum 1001\<rparr> =
     \<lparr>reply = Some \<lparr>status = 400,
        body = Failure (Text ''Not enough tokens available in this asset'')\<rparr>,
      store = seeded, calls = [Connect, Begin, SelectAsset, Rollback, Release]\<rparr> \<and>
   reply (invest no_faults seeded \<lparr>assetId = JNum 1, tokensToBuy = JNum 1000\<rparr>) \<noteq>
     Some \<lparr>status = 400,
           body = Failure (Text ''Not enough tokens available in this asset'')\<rparr>"
proof -
  let ?ast = "\<lparr>asset_id = 1, name = ''Skyline Apartments'', location = ''New York, NY'',
               apy = 850, price_per_token = 5000, tokens_available = 1000\<rparr>"
  have a: "assets seeded = Some (the (assets seeded))"
    and m: "?ast \<in> set (rows (the (assets seeded)))"
    by (simp_all add: seeded_def)
  from invest_not_enough_tokens [OF seeded_primary_keys seeded_non_negative a m,
         of "\<lparr>assetId = JNum 1, tokensToBuy = JNum 1001\<rparr>" 1001 no_faults]
       invest_not_enough_tokens [OF seeded_primary_keys seeded_non_negative a m,
         of "\<lparr>assetId = JNum 1, tokensToBuy = JNum 1000\<rparr>" 1000 no_faults]
  show ?thesis
    using seeded_primary_keys seeded_non_negative by simp
qed



text \<open>
  C10. While the dashboard table has no row, no request changes the database and no
  request is answered with the success response, whatever the store does. A request
  that passes the guard for an asset with enough tokens is answered with status 400
  and the text of the \<^verbatim>\<open>TypeError\<close> thrown by reading \<^verbatim>\<open>wallet_balance\<close> of the
  missing row, after a rollback.
\<close>

theorem invest_without_dashboard:
  assumes "dashboard d = Some D" "rows D = []"
  shows "store (invest e d req) = d \<and>
         (\<forall>b. reply (invest e d req) \<noteq> Some \<lparr>status = 200, body = Success b\<rparr>) \<and>
         (primary_keys d \<and> assets d = Some A \<and> ast \<in> set (rows A) \<and>
          assetId req = JNum (of_int (asset_id ast)) \<and> tokensToBuy req = JNum n \<and>
          0 < n \<and> n \<le> of_int (tokens_available ast) \<longrightarrow>
            invest no_faults d req =
              \<lparr>reply = Some \<lparr>status = 400, body = Failure EngineText\<rparr>, store = d,
               calls = [Connect, Begin, SelectAsset, SelectDashboard, Rollback, Release]\<rparr>)"
proof (intro conjI impI allI)
  have ns: "reply (invest e d req) \<noteq> Some \<lparr>status = 200, body = Success b\<rparr>" for b
  proof
    assume "reply (invest e d req) = Some \<lparr>status = 200, body = Success b\<rparr>"
    from invest_success_state [OF this] obtain D' dsh rest where
      "dashboard d = Some D'" "rows D' = dsh # rest"
      by blast
    with assms show False by simp
  qed
  then show "reply (invest e d req) \<noteq> Some \<lparr>status = 200, body = Success b\<rparr>" for b .
  from ns invest_store_cases [of e d req] show "store (invest e d req) = d"
    by blast
next
  assume h: "primary_keys d \<and> assets d = Some A \<and> ast \<in> set (rows A) \<and>
          assetId req = JNum (of_int (asset_id ast)) \<and> tokensToBuy req = JNum n \<and>
          0 < n \<and> n \<le> of_int (tokens_available ast)"
  then have sa: "select_asset d (of_int (asset_id ast)) = Inr [ast]"
    by (blast intro: select_asset_found)
  from assms have sd: "select_dashboard d = Inr []"
    by (simp add: select_dashboard_def)
  from h primary_keys_assets [of d A] have "asset_id ast \<noteq> 0"
    by (auto simp: serial_key_def)
  with h have v: "validate req = Some (of_int (asset_id ast), n)"
    by (simp add: validate_Some)
  from h have ge: "\<not> of_int (tokens_available ast) < n" by simp
  from invest_failed [OF v attempt_no_dashboard [OF sa ge sd]]
  show "invest no_faults d req =
              \<lparr>reply = Some \<lparr>status = 400, body = Failure EngineText\<rparr>, store = d,
               calls = [Connect, Begin, SelectAsset, SelectDashboard, Rollback, Release]\<rparr>"
    by simp
qed

theorem invest_without_dashboard_witness:
  "store (invest no_faults (seeded\<lparr>dashboard := Some \<lparr>rows = [], serial = 0\<rparr>\<rparr>)
            \<lparr>assetId = JNum 1, tokensToBuy = JNum 10\<rparr>) =
     seeded\<lparr>dashboard := Some \<lparr>rows = [], serial = 0\<rparr>\<rparr> \<and>
   invest no_faults (seeded\<lparr>dashboard := Some \<lparr>rows = [], serial = 0\<rparr>\<rparr>)
     \<lparr>assetId = JNum 1, tokensToBuy = JNum 10\<rparr> =
     \<lparr>reply = Some \<lparr>status = 400, body = Failure EngineText\<rparr>,
      store = seeded\<lparr>dashboard := Some \<lparr>rows = [], serial = 0\<rparr>\<rparr>,
      calls = [Connect, Begin, SelectAsset, SelectDashboard, Rollback, Release]\<rparr>"
proof -
  let ?d = "seeded\<lparr>dashboard := Some \<lparr>rows = [], serial = 0\<rparr>\<rparr>"
  let ?ast = "\<lparr>asset_id = 1, name = ''Skyline Apartments'', location = ''New York, NY'',
               apy = 850, price_per_token = 5000, tokens_available = 1000\<rparr>"
  have d: "dashboard ?d = Some \<lparr>rows = [], serial = 0\<rparr>"
    and r: "rows \<lparr>rows = [] :: dashboard_row list, serial = 0\<rparr> = []"
    by simp_all
  have p: "primary_keys ?d"
    by (simp add: primary_keys_def seeded_def serial_key_def)
  have a: "assets ?d = Some (the (assets seeded))"
    and m: "?ast \<in> set (rows (the (assets seeded)))"
    by (simp_all add: seeded_def)
  from invest_without_dashboard [OF d r,
         of no_faults "\<lparr>assetId = JNum 1, tokensToBuy = JNum 10\<rparr>" "the (assets seeded)" ?ast 10]
  show ?thesis
    using p a m by simp
qed

section \<open>The invariant of the data model\<close>



section \<open>Failures of the store\<close>

text \<open>
  C8. The only statuses the handler sends are 200 and 400 (lemma \<open>invest_status\<close>):
  the \<^verbatim>\<open>catch\<close> block answers whatever was thrown with status 400. On the seeded
  database, a request for 10 tokens of asset 1 during which the store fails at
  \<^verbatim>\<open>BEGIN\<close>, or at \<^verbatim>\<open>COMMIT\<close>, is answered with status 400 and the store's text; so
  is a request for 1.5 tokens, which the store rejects at the update of the asset.
  The handlers of \<^verbatim>\<open>GET /dashboard\<close> and \<^verbatim>\<open>GET /assets\<close> answer a store failure with
  status 500.
\<close>

theorem invest_store_failure_status:
  "reply (invest (\<lambda>c. c = Begin) seeded \<lparr>assetId = JNum 1, tokensToBuy = JNum 10\<rparr>) =
     Some \<lparr>status = 400, body = Failure (StoreText ConnectionFailure)\<rparr> \<and>
   reply (invest (\<lambda>c. c = Commit) seeded \<lparr>assetId = JNum 1, tokensToBuy = JNum 10\<rparr>) =
     Some \<lparr>status = 400, body = Failure (StoreText ConnectionFailure)\<rparr> \<and>
   reply (invest no_faults seeded \<lparr>assetId = JNum 1, tokensToBuy = JNum (3 / 2)\<rparr>) =
     Some \<lparr>status = 400, body = Failure (StoreText InvalidInteger)\<rparr>"
  by code_simp

section \<open>Running the initialisation again\<close>

text \<open>
  C9. With a store that does not fail: started on a store without the database,
  \<open>initDB\<close> run once, twice or any number of times leaves the one dashboard row and
  the four asset rows of \<open>seeded\<close>; from any state of the server a second run changes
  nothing that the first run left; and a table that already has rows is left as it is.
\<close>

theorem initDB_idempotent:
  "(initDB no_faults ^^ Suc n) None = Some seeded \<and>
   (\<exists>t u. dashboard seeded = Some t \<and> length (rows t) = 1 \<and>
           assets seeded = Some u \<and> length (rows u) = 4) \<and>
   initDB no_faults (initDB no_faults s) = initDB no_faults s \<and>
   (\<exists>d'. initDB no_faults (Some d) = Some d' \<and>
     (\<forall>t. dashboard d = Some t \<and> rows t \<noteq> [] \<longrightarrow> dashboard d' = Some t) \<and>
     (\<forall>u. assets d = Some u \<and> rows u \<noteq> [] \<longrightarrow> assets d' = Some u))"
proof (intro conjI)
  show "(initDB no_faults ^^ Suc n) None = Some seeded" by (rule initDB_repeated)
  show "\<exists>t u. dashboard seeded = Some t \<and> length (rows t) = 1 \<and>
           assets seeded = Some u \<and> length (rows u) = 4"
    by (simp add: seeded_def)
  show "initDB no_faults (initDB no_faults s) = initDB no_faults s" by (rule initDB_twice)
  show "\<exists>d'. initDB no_faults (Some d) = Some d' \<and>
     (\<forall>t. dashboard d = Some t \<and> rows t \<noteq> [] \<longrightarrow> dashboard d' = Some t) \<and>
     (\<forall>u. assets d = Some u \<and> rows u \<noteq> [] \<longrightarrow> assets d' = Some u)"
    by (rule initDB_keeps)
qed

theorem initDB_idempotent_witness:
  "(initDB no_faults ^^ 2) None = Some seeded \<and>
   initDB no_faults (initDB no_faults None) = initDB no_faults None \<and>
   (\<exists>d'. initDB no_faults (Some seeded) = Some d' \<and>
      dashboard d' = dashboard seeded \<and> assets d' = assets seeded)"
proof -
  have t: "dashboard seeded = Some (the (dashboard seeded)) \<and> rows (the (dashboard seeded)) \<noteq> []"
    and u: "assets seeded = Some (the (assets seeded)) \<and> rows (the (assets seeded)) \<noteq> []"
    by (simp_all add: seeded_def)
  from initDB_idempotent [of 1 None seeded] t u show ?thesis
    by (auto simp: numeral_2_eq_2)
qed

end
